theory Spec2Isabelle
  imports Main "HOL-Library.AList"
begin

section \<open>JavaScript values\<close>

text \<open>
  The middleware handles values that come out of a body parser, a query-string parser or
  \<^verbatim>\<open>JSON.parse\<close>: \<^verbatim>\<open>undefined\<close>, \<^verbatim>\<open>null\<close>, booleans, numbers, strings and objects.
  An object is a bag of own properties in insertion order; an array is an object whose keys
  are its indices, and the kind keeps what \<^verbatim>\<open>Array.isArray\<close> would say. The third kind is
  a function or object of the runtime itself, known by its name: the members that every
  plain object inherits from \<^verbatim>\<open>Object.prototype\<close> are of this kind. Numbers are restricted
  to the integers: the code only ever asks of a number whether it is zero.
\<close>

datatype objkind = PlainObject | ArrayObject | BuiltinObject string

datatype jsval =
    JUndefined
  | JNull
  | JBool bool
  | JNum int
  | JStr string
  | JObj objkind "(string \<times> jsval) list"

text \<open>\<^verbatim>\<open>!!v\<close>: the falsy values are undefined, null, false, 0 and the empty string.\<close>

fun truthy :: "jsval \<Rightarrow> bool" where
  "truthy JUndefined = False"
| "truthy JNull = False"
| "truthy (JBool b) = b"
| "truthy (JNum n) = (n \<noteq> 0)"
| "truthy (JStr s) = (s \<noteq> [])"
| "truthy (JObj k ps) = True"

text \<open>lodash \<^verbatim>\<open>_.isObject\<close>: true of objects and arrays, false of every primitive.\<close>

fun isObject :: "jsval \<Rightarrow> bool" where
  "isObject (JObj k ps) = True"
| "isObject v = False"

text \<open>\<^verbatim>\<open>typeof v === "string"\<close>.\<close>

fun isString :: "jsval \<Rightarrow> bool" where
  "isString (JStr s) = True"
| "isString v = False"

text \<open>
  \<^verbatim>\<open>v.name\<close> for a value that is neither undefined nor null (reading a property of those
  raises a TypeError, which the callers below rule out first). None of the names the
  middleware reads (query, extensions, variables, operationName, id, kind) is a property of
  a primitive's wrapper object or a member inherited from \<^verbatim>\<open>Object.prototype\<close> or
  \<^verbatim>\<open>Array.prototype\<close>, so only own properties answer.
\<close>

fun get_prop :: "jsval \<Rightarrow> string \<Rightarrow> jsval" where
  "get_prop (JObj k ps) name = (case map_of ps name of None \<Rightarrow> JUndefined | Some v \<Rightarrow> v)"
| "get_prop v name = JUndefined"

text \<open>
  \<^verbatim>\<open>v.name = x\<close> in strict mode (the module is an ES module): it updates or adds the own
  property of an object and raises a TypeError on anything else (\<open>None\<close>).
\<close>

fun set_prop :: "jsval \<Rightarrow> string \<Rightarrow> jsval \<Rightarrow> jsval option" where
  "set_prop (JObj k ps) name x = Some (JObj k (AList.update name x ps))"
| "set_prop v name x = None"

text \<open>
  \<^verbatim>\<open>Object.keys(v).length\<close> for a value that is neither undefined nor null: the own
  enumerable keys of an object, the indices of a string, nothing for a number or a boolean.
\<close>

fun object_keys_length :: "jsval \<Rightarrow> nat" where
  "object_keys_length (JObj k ps) = length (remdups (map fst ps))"
| "object_keys_length (JStr s) = length s"
| "object_keys_length v = 0"

section \<open>The runtime the module imports\<close>

text \<open>
  What the module takes from the JavaScript runtime and from Node's \<^verbatim>\<open>crypto\<close> is a
  parameter of the model:
  \<^item> \<open>JSON_parse s\<close> is \<^verbatim>\<open>JSON.parse(s)\<close>, \<open>None\<close> when it throws;
  \<^item> \<open>JSON_stringify v\<close> is \<^verbatim>\<open>JSON.stringify(v)\<close>, \<open>None\<close> when it throws;
  \<^item> \<open>sha256_hex s\<close> is \<^verbatim>\<open>createHash("sha256").update(s).digest("hex")\<close>: the SHA-256
    digest of the UTF-8 bytes of \<open>s\<close>, in lowercase hexadecimal;
  \<^item> \<open>ToString_other v\<close> is the string conversion of a number or an object.
\<close>

record js_runtime =
  JSON_parse :: "string \<Rightarrow> jsval option"
  JSON_stringify :: "jsval \<Rightarrow> string option"
  sha256_hex :: "string \<Rightarrow> string"
  ToString_other :: "jsval \<Rightarrow> string"

text \<open>The string conversion behind \<^verbatim>\<open>v + "..."\<close> and behind a computed key \<^verbatim>\<open>m[v]\<close>.\<close>

fun ToString :: "js_runtime \<Rightarrow> jsval \<Rightarrow> string" where
  "ToString rt (JStr s) = s"
| "ToString rt JUndefined = ''undefined''"
| "ToString rt JNull = ''null''"
| "ToString rt (JBool b) = (if b then ''true'' else ''false'')"
| "ToString rt v = ToString_other rt v"

section \<open>Errors (error.ts)\<close>

record HttpQueryError =
  statusCode :: nat
  message :: string
  isGraphQLError :: bool
  headers :: "(string \<times> string) list option"

text \<open>The constructor: \<^verbatim>\<open>isGraphQLError\<close> defaults to false, \<^verbatim>\<open>headers\<close> is optional.\<close>

definition new_HttpQueryError ::
  "nat \<Rightarrow> string \<Rightarrow> bool option \<Rightarrow> (string \<times> string) list option \<Rightarrow> HttpQueryError" where
  "new_HttpQueryError status msg isGraphQL hdrs =
     \<lparr> statusCode = status,
       message = msg,
       isGraphQLError = (case isGraphQL of None \<Rightarrow> False | Some b \<Rightarrow> b),
       headers = hdrs \<rparr>"

text \<open>
  What a call can throw: an \<^verbatim>\<open>HttpQueryError\<close>, the runtime's TypeError, or whatever the
  next handler rejects with. \<open>HashFinalized\<close> is what a Hash object throws when it is used
  after its digest has been taken.
\<close>

datatype exn =
    HttpQueryErr HttpQueryError
  | TypeError
  | HandlerError string
  | HashFinalized

section \<open>The fingerprint (generateRequestHash)\<close>

definition generateRequestHash :: "js_runtime \<Rightarrow> jsval \<Rightarrow> jsval \<Rightarrow> exn + string" where
  "generateRequestHash rt queryHashId queryVariables =
     (if \<not> truthy queryVariables \<or> \<not> isObject queryVariables
      then Inr (sha256_hex rt (ToString rt queryHashId @ ''''))
      else (case JSON_stringify rt queryVariables of
              None \<Rightarrow>
                Inl (HttpQueryErr (new_HttpQueryError 400
                       ''[persist-query-middleware] Variables are invalid JSON'' None None))
            | Some variableStirng \<Rightarrow>
                Inr (sha256_hex rt (ToString rt queryHashId @ variableStirng))))"

subsection \<open>The fingerprint as the specification words it\<close>

text \<open>
  The canonical variable string: empty when the variables are absent or not an object (in
  the JavaScript sense, which counts arrays), their JSON serialisation otherwise; \<open>None\<close> when
  the serialisation fails.
\<close>

definition canonical_variable_string_spec :: "js_runtime \<Rightarrow> jsval \<Rightarrow> string option" where
  "canonical_variable_string_spec rt variables =
     (case variables of
        JObj k ps \<Rightarrow> JSON_stringify rt (JObj k ps)
      | _ \<Rightarrow> Some '''')"

definition fingerprint_spec :: "js_runtime \<Rightarrow> string \<Rightarrow> jsval \<Rightarrow> string option" where
  "fingerprint_spec rt persistHash variables =
     map_option (\<lambda>canonical. sha256_hex rt (persistHash @ canonical))
       (canonical_variable_string_spec rt variables)"

subsection \<open>The fingerprint with Node's Hash object made explicit\<close>

text \<open>
  \<^verbatim>\<open>createHash("sha256")\<close> makes a mutable object: \<^verbatim>\<open>update\<close> appends to the data it has
  been fed, \<^verbatim>\<open>digest\<close> finalises it, and both throw once the digest has been taken. The
  Hash objects a process has made are a store, addressed by position; what a call may do
  to the outside of the function is what it may do to this store.
\<close>

record hash_object =
  fed :: string
  digested :: bool

type_synonym hash_store = "hash_object list"

definition createHash :: "hash_store \<Rightarrow> nat \<times> hash_store" where
  "createHash store = (length store, store @ [\<lparr> fed = [], digested = False \<rparr>])"

definition Hash_update :: "nat \<Rightarrow> string \<Rightarrow> hash_store \<Rightarrow> exn + hash_store" where
  "Hash_update address text store =
     (if address < length store \<and> \<not> digested (store ! address)
      then Inr (store[address := (store ! address)\<lparr>fed := fed (store ! address) @ text\<rparr>])
      else Inl HashFinalized)"

definition Hash_digest_hex :: "js_runtime \<Rightarrow> nat \<Rightarrow> hash_store \<Rightarrow> exn + string \<times> hash_store" where
  "Hash_digest_hex rt address store =
     (if address < length store \<and> \<not> digested (store ! address)
      then Inr (sha256_hex rt (fed (store ! address)),
                store[address := (store ! address)\<lparr>digested := True\<rparr>])
      else Inl HashFinalized)"

text \<open>
  The body of \<^verbatim>\<open>generateRequestHash\<close> once more, run in a store: it returns what the call
  returns or throws, and the store the call leaves.
\<close>

definition generateRequestHash_store ::
  "js_runtime \<Rightarrow> jsval \<Rightarrow> jsval \<Rightarrow> hash_store \<Rightarrow> (exn + string) \<times> hash_store" where
  "generateRequestHash_store rt queryHashId queryVariables store =
     (case (if \<not> truthy queryVariables \<or> \<not> isObject queryVariables then Inr ''''
            else (case JSON_stringify rt queryVariables of
                    None \<Rightarrow>
                      Inl (HttpQueryErr (new_HttpQueryError 400
                             ''[persist-query-middleware] Variables are invalid JSON'' None None))
                  | Some serialised \<Rightarrow> Inr serialised)) of
        Inl e \<Rightarrow> (Inl e, store)
      | Inr variableStirng \<Rightarrow>
          (case createHash store of
             (hash, created) \<Rightarrow>
               (case Hash_update hash (ToString rt queryHashId @ variableStirng) created of
                  Inl e \<Rightarrow> (Inl e, created)
                | Inr updated \<Rightarrow>
                    (case Hash_digest_hex rt hash updated of
                       Inl e \<Rightarrow> (Inl e, updated)
                     | Inr (digest, finalised) \<Rightarrow> (Inr digest, finalised)))))"

section \<open>The cache (cache.ts)\<close>

text \<open>
  \<^verbatim>\<open>LRUCache\<close> wraps the \<^verbatim>\<open>lru-cache\<close> package. The package is a parameter of the
  wrapper and of the middleware: a constructor from the options, \<^verbatim>\<open>get\<close> (which may
  reorder or purge, so it returns the store too), \<^verbatim>\<open>set\<close> and \<^verbatim>\<open>has\<close>.
\<close>

record lru_options =
  opt_max :: "nat option"
  opt_maxAge :: "nat option"

record 'c lru_package =
  lib_new :: "lru_options \<Rightarrow> 'c"
  lib_get :: "'c \<Rightarrow> string \<Rightarrow> jsval \<times> 'c"
  lib_set :: "'c \<Rightarrow> string \<Rightarrow> jsval \<Rightarrow> 'c"
  lib_has :: "'c \<Rightarrow> string \<Rightarrow> bool"

definition LRUCache_constructor :: "'c lru_package \<Rightarrow> lru_options \<Rightarrow> 'c" where
  "LRUCache_constructor lib options =
     lib_new lib
       \<lparr> opt_max = opt_max options,
         opt_maxAge = Some (case opt_maxAge options of None \<Rightarrow> 1000 * 60 * 60 | Some a \<Rightarrow> a) \<rparr>"

definition getInstance :: "'c lru_package \<Rightarrow> lru_options option \<Rightarrow> 'c" where
  "getInstance lib options =
     LRUCache_constructor lib
       (case options of
          None \<Rightarrow> \<lparr> opt_max = Some 100, opt_maxAge = Some (1000 * 60 * 60) \<rparr>
        | Some given \<Rightarrow> given)"

definition getCache :: "'c lru_package \<Rightarrow> lru_options option \<Rightarrow> 'c" where
  "getCache lib options = getInstance lib options"

definition LRUCache_get :: "'c lru_package \<Rightarrow> 'c \<Rightarrow> string \<Rightarrow> jsval \<times> 'c" where
  "LRUCache_get lib c key = lib_get lib c key"

definition LRUCache_set :: "'c lru_package \<Rightarrow> 'c \<Rightarrow> string \<Rightarrow> jsval \<Rightarrow> 'c" where
  "LRUCache_set lib c key val = lib_set lib c key val"

definition LRUCache_has :: "'c lru_package \<Rightarrow> 'c \<Rightarrow> string \<Rightarrow> bool" where
  "LRUCache_has lib c key = lib_has lib c key"

subsection \<open>The bounded store\<close>

text \<open>
  Modelled from the spec: the store of the \<^verbatim>\<open>lru-cache\<close> package, which holds the
  entries and evicts them and is not among the sources (only its wrapper is). Following
  section 4.2 of the specification, a store has a capacity, a time-to-live in milliseconds
  and its entries, each with the clock reading at its insertion, kept from the most to the
  least recently used.
\<close>

record LRU =
  lru_max :: nat
  lru_maxAge :: nat
  lru_entries :: "(string \<times> jsval \<times> nat) list"

text \<open>
  Modelled from the spec: the constructor of the package, absent from the sources. The
  capacity defaults to 100 entries and the time-to-live to one hour.
\<close>

definition LRU_new :: "lru_options \<Rightarrow> LRU" where
  "LRU_new options =
     \<lparr> lru_max = (case opt_max options of None \<Rightarrow> 100 | Some m \<Rightarrow> m),
       lru_maxAge = (case opt_maxAge options of None \<Rightarrow> 1000 * 60 * 60 | Some a \<Rightarrow> a),
       lru_entries = [] \<rparr>"

text \<open>
  Modelled from the spec: the age test of the package, absent from the sources. An entry
  has expired once more than the time-to-live has elapsed since its insertion.
\<close>

definition expired :: "LRU \<Rightarrow> nat \<Rightarrow> nat \<Rightarrow> bool" where
  "expired c now inserted = (inserted + lru_maxAge c < now)"

text \<open>
  Modelled from the spec: \<^verbatim>\<open>has\<close> of the package, absent from the sources. An expired
  entry is reported absent.
\<close>

definition LRU_has :: "nat \<Rightarrow> LRU \<Rightarrow> string \<Rightarrow> bool" where
  "LRU_has now c key =
     (case find (\<lambda>e. fst e = key) (lru_entries c) of
        None \<Rightarrow> False
      | Some (k, v, inserted) \<Rightarrow> \<not> expired c now inserted)"

text \<open>
  Modelled from the spec: \<^verbatim>\<open>get\<close> of the package, absent from the sources. An expired
  entry is treated as absent and purged at the lookup; a live one is returned and becomes
  the most recently used.
\<close>

definition LRU_get :: "nat \<Rightarrow> LRU \<Rightarrow> string \<Rightarrow> jsval \<times> LRU" where
  "LRU_get now c key =
     (case find (\<lambda>e. fst e = key) (lru_entries c) of
        None \<Rightarrow> (JUndefined, c)
      | Some (k, v, inserted) \<Rightarrow>
          if expired c now inserted
          then (JUndefined, c\<lparr>lru_entries := filter (\<lambda>e. fst e \<noteq> key) (lru_entries c)\<rparr>)
          else (v, c\<lparr>lru_entries :=
                       (k, v, inserted) # filter (\<lambda>e. fst e \<noteq> key) (lru_entries c)\<rparr>))"

text \<open>
  Modelled from the spec: \<^verbatim>\<open>set\<close> of the package, absent from the sources. The entry
  becomes the most recently used, replacing an entry of the same key; entries beyond the
  capacity are evicted from the least recently used end.
\<close>

definition LRU_set :: "nat \<Rightarrow> LRU \<Rightarrow> string \<Rightarrow> jsval \<Rightarrow> LRU" where
  "LRU_set now c key val =
     c\<lparr>lru_entries :=
         take (lru_max c) ((key, val, now) # filter (\<lambda>e. fst e \<noteq> key) (lru_entries c))\<rparr>"

text \<open>The package with its clock stopped at \<open>now\<close>.\<close>

definition LRU_package :: "nat \<Rightarrow> LRU lru_package" where
  "LRU_package now =
     \<lparr> lib_new = LRU_new, lib_get = LRU_get now, lib_set = LRU_set now, lib_has = LRU_has now \<rparr>"

text \<open>Inserting a list of keys, each with its value and the clock reading at its insertion.\<close>

fun LRU_set_all :: "LRU \<Rightarrow> (string \<times> jsval \<times> nat) list \<Rightarrow> LRU" where
  "LRU_set_all c [] = c"
| "LRU_set_all c ((key, val, now) # rest) = LRU_set_all (LRU_set now c key val) rest"

section \<open>The middleware\<close>

subsection \<open>The Koa context, the configuration and the normalised request\<close>

text \<open>
  The fields of the Koa context that the middleware reads or writes. \<^verbatim>\<open>ctx.body\<close> is
  Koa's alias of \<^verbatim>\<open>ctx.response.body\<close>, so both are \<open>response_body\<close>; \<open>req_body\<close> is
  \<^verbatim>\<open>ctx.req.body\<close>, where koa-multer leaves the parsed body.
\<close>

record Context =
  ctx_path :: string
  request_method :: string
  request_body :: jsval
  request_query :: jsval
  req_body :: jsval
  response_body :: jsval
  response_type :: string

record PersistCacheConfig =
  cfg_path :: "string option"
  cfg_map :: "string \<rightharpoonup> string"

record GraphQLRequest =
  query :: jsval
  operationName :: jsval
  variables :: jsval
  extensions :: jsval
  persistHash :: jsval

record query_and_method =
  qm_query :: jsval
  qm_method :: string

text \<open>
  The members that a plain object inherits from \<^verbatim>\<open>Object.prototype\<close>: under
  \<^verbatim>\<open>constructor\<close> the function \<^verbatim>\<open>Object\<close>, under \<^verbatim>\<open>__proto__\<close> the prototype itself, a
  method under each other name.
\<close>

definition Object_prototype :: "string \<Rightarrow> jsval option" where
  "Object_prototype name =
     (if name \<in> set [''constructor'', ''__defineGetter__'', ''__defineSetter__'',
                      ''hasOwnProperty'', ''__lookupGetter__'', ''__lookupSetter__'',
                      ''isPrototypeOf'', ''propertyIsEnumerable'', ''toString'', ''valueOf'',
                      ''__proto__'', ''toLocaleString'']
      then Some (JObj (BuiltinObject name) [])
      else None)"

text \<open>
  \<^verbatim>\<open>persistMap[key]\<close>, the map being a plain object: the query text registered under the
  key; failing that, the member inherited from \<^verbatim>\<open>Object.prototype\<close> under that name;
  undefined when there is neither.
\<close>

definition persistMap_lookup :: "js_runtime \<Rightarrow> (string \<rightharpoonup> string) \<Rightarrow> jsval \<Rightarrow> jsval" where
  "persistMap_lookup rt persistMap key =
     (case persistMap (ToString rt key) of
        Some text \<Rightarrow> JStr text
      | None \<Rightarrow>
          (case Object_prototype (ToString rt key) of
             Some inherited \<Rightarrow> inherited
           | None \<Rightarrow> JUndefined))"

subsection \<open>Normalising the request\<close>

definition parseQueryAndMethod :: "Context \<Rightarrow> query_and_method" where
  "parseQueryAndMethod ctx =
     \<lparr> qm_query =
         (if request_method ctx = ''POST''
          then (if truthy (request_body ctx) then request_body ctx else req_body ctx)
          else request_query ctx),
       qm_method = request_method ctx \<rparr>"

definition validateRequestPayload :: "query_and_method \<Rightarrow> exn + jsval" where
  "validateRequestPayload request =
     (if qm_method request = ''POST'' then
        (if \<not> truthy (qm_query request) \<or> object_keys_length (qm_query request) = 0
         then Inl (HttpQueryErr (new_HttpQueryError 500
                     ''POST body missing. Did you forget use body-parser middleware?''
                     None None))
         else Inr (qm_query request))
      else if qm_method request = ''GET'' then
        (if \<not> truthy (qm_query request) \<or> object_keys_length (qm_query request) = 0
         then Inl (HttpQueryErr (new_HttpQueryError 400 ''GET query missing.'' None None))
         else Inr (qm_query request))
      else
        Inl (HttpQueryErr (new_HttpQueryError 405
               ''Apollo Server supports only GET/POST requests.''
               (Some False) (Some [(''Allow'', ''GET, POST'')]))))"

text \<open>The two messages for a query that is not a string.\<close>

definition document_message :: string where
  "document_message =
     ''GraphQL queries must be strings. It looks like you're sending the '' @
     ''internal graphql-js representation of a parsed query in your '' @
     ''request instead of a request in the GraphQL query language. You '' @
     ''can convert an AST to a string using the `print` function from '' @
     ''`graphql`, or use a client like `apollo-client` which converts '' @
     ''the internal representation to a string for you.''"

definition strings_message :: string where
  "strings_message = ''GraphQL queries must be strings.''"

text \<open>
  The idiom used for extensions and for variables: a string is run through
  \<^verbatim>\<open>JSON.parse\<close>, whose failure becomes a 400 with the given message; anything else is kept.
\<close>

definition parse_if_string :: "js_runtime \<Rightarrow> string \<Rightarrow> jsval \<Rightarrow> exn + jsval" where
  "parse_if_string rt msg v =
     (case v of
        JStr s \<Rightarrow>
          (case JSON_parse rt s of
             None \<Rightarrow> Inl (HttpQueryErr (new_HttpQueryError 400 msg None None))
           | Some parsed \<Rightarrow> Inr parsed)
      | _ \<Rightarrow> Inr v)"

definition parseGraphQLRequestFromPayload :: "js_runtime \<Rightarrow> jsval \<Rightarrow> exn + GraphQLRequest" where
  "parseGraphQLRequestFromPayload rt requestParams =
     (if requestParams = JUndefined \<or> requestParams = JNull then Inl TypeError
      else
        let queryString = get_prop requestParams ''query'' in
        (case parse_if_string rt ''Extensions are invalid JSON.''
                (get_prop requestParams ''extensions'') of
           Inl e \<Rightarrow> Inl e
         | Inr extensions' \<Rightarrow>
             if truthy queryString \<and> \<not> isString queryString then
               (if get_prop queryString ''kind'' = JStr ''Document''
                then Inl (HttpQueryErr (new_HttpQueryError 400 document_message None None))
                else Inl (HttpQueryErr (new_HttpQueryError 400 strings_message None None)))
             else
               (case parse_if_string rt ''Variables are invalid JSON.''
                       (get_prop requestParams ''variables'') of
                  Inl e \<Rightarrow> Inl e
                | Inr variables' \<Rightarrow>
                    Inr \<lparr> query = queryString,
                          operationName = get_prop requestParams ''operationName'',
                          variables = variables',
                          extensions = extensions',
                          persistHash = get_prop requestParams ''id'' \<rparr>)))"

definition parseGraphQLRequest :: "js_runtime \<Rightarrow> Context \<Rightarrow> exn + GraphQLRequest" where
  "parseGraphQLRequest rt ctx =
     (case validateRequestPayload (parseQueryAndMethod ctx) of
        Inl e \<Rightarrow> Inl e
      | Inr requestPayload \<Rightarrow> parseGraphQLRequestFromPayload rt requestPayload)"

subsection \<open>The module's state and what the middleware does to the outside\<close>

text \<open>
  The module holds one cache, created when it is loaded. The trace records, in order, each
  call on the cache and each call of the next handler, with its argument.
\<close>

datatype event =
    CacheGet string
  | CacheSet string jsval
  | NextCalled Context

record 'c world =
  cache :: 'c
  trace :: "event list"

definition initial_world :: "'c lru_package \<Rightarrow> 'c world" where
  "initial_world lib = \<lparr> cache = getCache lib None, trace = [] \<rparr>"

text \<open>
  The next handler works on the context and returns it, or rejects. The cache is private
  to the module, so the handler cannot reach it.
\<close>

type_synonym handler = "Context \<Rightarrow> exn + Context"

definition call_next :: "handler \<Rightarrow> Context \<Rightarrow> 'c world \<Rightarrow> (exn + Context) \<times> 'c world" where
  "call_next next ctx w = (next ctx, w\<lparr>trace := trace w @ [NextCalled ctx]\<rparr>)"

subsection \<open>Lookup, execution, population\<close>

definition getResponseFromCache ::
  "'c lru_package \<Rightarrow> string \<Rightarrow> 'c world \<Rightarrow> jsval \<times> 'c world" where
  "getResponseFromCache lib key w =
     (case LRUCache_get lib (cache w) key of
        (found, c') \<Rightarrow>
          (if truthy found then found else JUndefined,
           w\<lparr>cache := c', trace := trace w @ [CacheGet key]\<rparr>))"

definition cacheAfterExecutionGraphQL ::
  "'c lru_package \<Rightarrow> Context \<Rightarrow> jsval \<Rightarrow> string \<Rightarrow> 'c world \<Rightarrow> 'c world" where
  "cacheAfterExecutionGraphQL lib ctx persistHash' requestHash w =
     (if truthy persistHash' \<and> response_type ctx = ''application/json''
      then w\<lparr>cache := LRUCache_set lib (cache w) requestHash (response_body ctx),
             trace := trace w @ [CacheSet requestHash (response_body ctx)]\<rparr>
      else w)"

definition getQueryFromHash ::
  "js_runtime \<Rightarrow> 'c lru_package \<Rightarrow> handler \<Rightarrow> (string \<rightharpoonup> string) \<Rightarrow> Context \<Rightarrow> 'c world
     \<Rightarrow> (exn + Context) \<times> 'c world" where
  "getQueryFromHash rt lib next persistMap ctx w =
     (case parseGraphQLRequest rt ctx of
        Inl e \<Rightarrow> (Inl e, w)
      | Inr request \<Rightarrow>
          (case generateRequestHash rt (persistHash request) (variables request) of
             Inl e \<Rightarrow> (Inl e, w)
           | Inr requestHash \<Rightarrow>
               (case getResponseFromCache lib requestHash w of
                  (data, w1) \<Rightarrow>
                    if truthy data then (Inr (ctx\<lparr>response_body := data\<rparr>), w1)
                    else
                      (case set_prop (request_body ctx) ''query''
                              (persistMap_lookup rt persistMap (persistHash request)) of
                         None \<Rightarrow> (Inl TypeError, w1)
                       | Some body' \<Rightarrow>
                           (case call_next next (ctx\<lparr>request_body := body'\<rparr>) w1 of
                              (Inl e, w2) \<Rightarrow> (Inl e, w2)
                            | (Inr ctx', w2) \<Rightarrow>
                                (Inr ctx',
                                 cacheAfterExecutionGraphQL lib ctx' (persistHash request)
                                   requestHash w2))))))"

text \<open>
  \<^verbatim>\<open>persistCacheGenerate\<close> rejects a configuration that is not an object, which a value
  of the record type always is; the path defaults to \<^verbatim>\<open>/graphql\<close>. The middleware it
  returns is \<open>persistCache\<close>: off the configured path it calls the next handler and
  nothing else.
\<close>

definition shouldHandleByPath :: "string \<Rightarrow> string \<Rightarrow> bool" where
  "shouldHandleByPath path pattern = (pattern = path)"

definition conditionDo :: "bool \<Rightarrow> 'a \<Rightarrow> 'a \<Rightarrow> 'a" where
  "conditionDo condition operation elseOperation =
     (if condition then operation else elseOperation)"

definition persistCache ::
  "js_runtime \<Rightarrow> 'c lru_package \<Rightarrow> PersistCacheConfig \<Rightarrow> handler \<Rightarrow> Context \<Rightarrow> 'c world
     \<Rightarrow> (exn + Context) \<times> 'c world" where
  "persistCache rt lib config next ctx w =
     conditionDo
       (shouldHandleByPath (ctx_path ctx)
          (case cfg_path config of None \<Rightarrow> ''/graphql'' | Some path \<Rightarrow> path))
       (getQueryFromHash rt lib next (cfg_map config) ctx w)
       (call_next next ctx w)"

section \<open>Concrete requests\<close>

text \<open>
  A runtime, a configuration, requests and an executor to run the definitions on. The
  runtime agrees with Node on the strings and values used below (the digests are the
  SHA-256 digests of the five strings) and is arbitrary elsewhere.
\<close>

definition sample_runtime :: js_runtime where
  \<open>sample_runtime =
     \<lparr> JSON_parse =
         (\<lambda>s. if s = ''{"x":1}'' then Some (JObj PlainObject [(''x'', JNum 1)]) else None),
       JSON_stringify =
         (\<lambda>v. if v = JObj PlainObject [(''x'', JNum 1)] then Some ''{"x":1}'' else None),
       sha256_hex =
         (\<lambda>s. if s = ''abc123''
                then ''6ca13d52ca70c883e0f0bb101e425a89e8624de51db2d2392593af6a84118090''
              else if s = ''abc123{"x":1}''
                then ''02cdb46fb4bc3ed46c7de5618a4bf5b19d9dc8cf8a45b447714213eddbcdbddb''
              else if s = ''undefined''
                then ''eb045d78d273107348b0300c01d29b7552d622abbc6faf81b3ec55359aa9950c''
              else if s = ''constructor''
                then ''e3c1703abf8a6b3df04dd30e184fe02bb6724f46830b544562ff083169371068''
              else if s = ''''
                then ''e3b0c44298fc1c149afbf4c8996fb92427ae41e4649b934ca495991b7852b855''
              else ''''),
       ToString_other = (\<lambda>v. ''[object Object]'') \<rparr>\<close>

definition sample_config :: PersistCacheConfig where
  "sample_config = \<lparr> cfg_path = Some ''/graphql'', cfg_map = [''abc123'' \<mapsto> ''{ hello }''] \<rparr>"

text \<open>A request for \<^verbatim>\<open>/graphql\<close> with the given method, parsed body and parsed query string.\<close>

definition sample_request :: "string \<Rightarrow> jsval \<Rightarrow> jsval \<Rightarrow> Context" where
  "sample_request method body' query' =
     \<lparr> ctx_path = ''/graphql'',
       request_method = method,
       request_body = body',
       request_query = query',
       req_body = JUndefined,
       response_body = JUndefined,
       response_type = '''' \<rparr>"

definition hello_world :: jsval where
  "hello_world = JObj PlainObject [(''data'', JObj PlainObject [(''hello'', JStr ''world'')])]"

text \<open>An executor that answers every request with \<^verbatim>\<open>{data: {hello: "world"}}\<close> as JSON.\<close>

definition sample_executor :: handler where
  "sample_executor ctx =
     Inr (ctx\<lparr>response_body := hello_world, response_type := ''application/json''\<rparr>)"


text \<open>The persisted query \<^verbatim>\<open>abc123\<close> posted without variables, and its fingerprint.\<close>

definition abc123_request :: Context where
  "abc123_request =
     sample_request ''POST'' (JObj PlainObject [(''id'', JStr ''abc123'')]) JUndefined"

definition abc123_key :: string where
  "abc123_key = ''6ca13d52ca70c883e0f0bb101e425a89e8624de51db2d2392593af6a84118090''"

text \<open>
  An ordinary GraphQL request on the same path: query text and no \<^verbatim>\<open>id\<close>. Its
  fingerprint is the digest of \<^verbatim>\<open>"undefined"\<close>.
\<close>

definition plain_query_request :: Context where
  "plain_query_request =
     sample_request ''POST'' (JObj PlainObject [(''query'', JStr ''{ hello }'')]) JUndefined"

definition undefined_key :: string where
  "undefined_key = ''eb045d78d273107348b0300c01d29b7552d622abbc6faf81b3ec55359aa9950c''"

text \<open>A request whose \<^verbatim>\<open>id\<close> is the empty string; its fingerprint is the digest of nothing.\<close>

definition empty_id_request :: Context where
  "empty_id_request =
     sample_request ''POST''
       (JObj PlainObject [(''id'', JStr ''''), (''query'', JStr ''{ hello }'')]) JUndefined"

definition empty_key :: string where
  "empty_key = ''e3b0c44298fc1c149afbf4c8996fb92427ae41e4649b934ca495991b7852b855''"

text \<open>
  A request whose \<^verbatim>\<open>id\<close> is no key of the configured map but the name of a member of
  \<^verbatim>\<open>Object.prototype\<close>.
\<close>

definition constructor_request :: Context where
  "constructor_request =
     sample_request ''POST''
       (JObj PlainObject [(''id'', JStr ''constructor''), (''query'', JStr ''{ hello }'')])
       JUndefined"

definition constructor_key :: string where
  "constructor_key = ''e3c1703abf8a6b3df04dd30e184fe02bb6724f46830b544562ff083169371068''"

text \<open>A request that sends a parsed document where the query text belongs.\<close>

definition document_request :: Context where
  "document_request =
     sample_request ''POST''
       (JObj PlainObject [(''query'', JObj PlainObject [(''kind'', JStr ''Document'')])])
       JUndefined"

text \<open>The module's state when its cache, filled at time 0, holds one entry.\<close>

definition world_holding :: "string \<Rightarrow> jsval \<Rightarrow> LRU world" where
  "world_holding key val =
     \<lparr> cache = LRU_set 0 (getCache (LRU_package 0) None) key val, trace = [] \<rparr>"

text \<open>A store of capacity two.\<close>

definition small_cache :: LRU where
  "small_cache = LRU_new \<lparr> opt_max = Some 2, opt_maxAge = None \<rparr>"

section \<open>Words of the specification\<close>

text \<open>
  A payload is absent or empty when it is undefined or null, or has no key of its own.
\<close>

definition absent_or_empty :: "jsval \<Rightarrow> bool" where
  "absent_or_empty v = (v = JUndefined \<or> v = JNull \<or> object_keys_length v = 0)"

section \<open>Unfolding the model\<close>

lemmas model_defs =
  persistCache_def conditionDo_def shouldHandleByPath_def getQueryFromHash_def
  getResponseFromCache_def call_next_def cacheAfterExecutionGraphQL_def
  parseGraphQLRequest_def parseGraphQLRequestFromPayload_def parse_if_string_def
  validateRequestPayload_def parseQueryAndMethod_def generateRequestHash_def
  persistMap_lookup_def Object_prototype_def new_HttpQueryError_def
  LRUCache_get_def LRUCache_set_def LRUCache_has_def getCache_def getInstance_def
  LRUCache_constructor_def initial_world_def
  LRU_package_def LRU_new_def LRU_get_def LRU_set_def LRU_has_def expired_def

lemmas sample_defs =
  sample_runtime_def sample_config_def sample_request_def sample_executor_def hello_world_def

section \<open>The fingerprint\<close>

text \<open>
  C1. For every persistHash string and every variables value, the fingerprint that
  \<^verbatim>\<open>generateRequestHash\<close> returns is the lowercase hexadecimal SHA-256 digest of the UTF-8
  bytes of persistHash followed by the canonical variable string: the empty string when
  the variables are absent or not an object, their JSON serialisation otherwise. An object
  is meant in the JavaScript sense, as the code tests it, so an array is serialised too.
  When the serialisation throws there is no fingerprint: the call fails with status 400.
\<close>

theorem generateRequestHash_is_fingerprint:
  "generateRequestHash rt (JStr persistHash') variables' =
     (case fingerprint_spec rt persistHash' variables' of
        Some fingerprint \<Rightarrow> Inr fingerprint
      | None \<Rightarrow>
          Inl (HttpQueryErr (new_HttpQueryError 400
                 ''[persist-query-middleware] Variables are invalid JSON'' None None)))"
  by (cases variables')
     (simp_all add: generateRequestHash_def fingerprint_spec_def
        canonical_variable_string_spec_def split: option.split)

theorem generateRequestHash_is_fingerprint_witness:
  \<open>generateRequestHash sample_runtime (JStr ''abc123'') (JObj PlainObject [(''x'', JNum 1)]) =
     Inr ''02cdb46fb4bc3ed46c7de5618a4bf5b19d9dc8cf8a45b447714213eddbcdbddb''
   \<and> fingerprint_spec sample_runtime ''abc123'' (JObj PlainObject [(''x'', JNum 1)]) =
     Some ''02cdb46fb4bc3ed46c7de5618a4bf5b19d9dc8cf8a45b447714213eddbcdbddb''\<close>
  using generateRequestHash_is_fingerprint
    [of sample_runtime "''abc123''" "JObj PlainObject [(''x'', JNum 1)]"]
  by (simp add: fingerprint_spec_def canonical_variable_string_spec_def sample_runtime_def)

text \<open>
  C2. The fingerprint is deterministic and free of side effects: two calls of
  \<^verbatim>\<open>generateRequestHash\<close> on the same pair of persistHash and variables give the same
  output. Run in any store of Hash objects, the body returns what the function of the pair
  returns, so the output does not depend on the store: a second call, in the store the
  first one left or in any other, gives the same output. And the call changes no object
  that existed before it: the store it leaves is the one it found, followed by the Hash
  object it made for itself. The cache and the context are not within its reach.
\<close>

theorem generateRequestHash_deterministic:
  "fst (generateRequestHash_store rt persistHash' variables' store) =
     generateRequestHash rt persistHash' variables'
   \<and> fst (generateRequestHash_store rt persistHash' variables'
            (snd (generateRequestHash_store rt persistHash' variables' store))) =
       fst (generateRequestHash_store rt persistHash' variables' store)
   \<and> fst (generateRequestHash_store rt persistHash' variables' other_store) =
       fst (generateRequestHash_store rt persistHash' variables' store)
   \<and> take (length store) (snd (generateRequestHash_store rt persistHash' variables' store)) =
       store"
proof -
  have val: "fst (generateRequestHash_store rt persistHash' variables' s) =
               generateRequestHash rt persistHash' variables'" for s
    by (simp add: generateRequestHash_store_def generateRequestHash_def createHash_def
          Hash_update_def Hash_digest_hex_def nth_append split: option.split)
  have frame: "take (length store)
                 (snd (generateRequestHash_store rt persistHash' variables' store)) = store"
    by (simp add: generateRequestHash_store_def createHash_def
          Hash_update_def Hash_digest_hex_def nth_append split: option.split)
  show ?thesis
    using val frame by simp
qed

theorem generateRequestHash_deterministic_witness:
  \<open>generateRequestHash_store sample_runtime (JStr ''abc123'')
      (JObj PlainObject [(''x'', JNum 1)]) [\<lparr> fed = ''abc123'', digested = False \<rparr>] =
     (Inr ''02cdb46fb4bc3ed46c7de5618a4bf5b19d9dc8cf8a45b447714213eddbcdbddb'',
      [\<lparr> fed = ''abc123'', digested = False \<rparr>,
       \<lparr> fed = ''abc123{"x":1}'', digested = True \<rparr>])
   \<and> generateRequestHash sample_runtime (JStr ''abc123'') (JObj PlainObject [(''x'', JNum 1)]) =
     Inr ''02cdb46fb4bc3ed46c7de5618a4bf5b19d9dc8cf8a45b447714213eddbcdbddb''\<close>
  using generateRequestHash_deterministic
    [of sample_runtime "JStr ''abc123''" "JObj PlainObject [(''x'', JNum 1)]"
        "[\<lparr> fed = ''abc123'', digested = False \<rparr>]" "[]"]
  by (simp add: generateRequestHash_store_def generateRequestHash_def createHash_def
        Hash_update_def Hash_digest_hex_def sample_runtime_def)

section \<open>Facts shared by the results below\<close>

lemma abc123_parse:
  "parseGraphQLRequest sample_runtime abc123_request =
     Inr \<lparr> query = JUndefined, operationName = JUndefined, variables = JUndefined,
           extensions = JUndefined, persistHash = JStr ''abc123'' \<rparr>"
  by (simp add: model_defs sample_defs abc123_request_def)

lemma abc123_hash:
  "generateRequestHash sample_runtime (JStr ''abc123'') JUndefined = Inr abc123_key"
  by (simp add: model_defs sample_defs abc123_key_def)

lemma absent_or_empty_iff:
  "absent_or_empty v = (\<not> truthy v \<or> object_keys_length v = 0)"
  by (cases v) (auto simp: absent_or_empty_def)

lemma validated_payload_truthy:
  "validateRequestPayload request = Inr requestParams \<Longrightarrow> truthy requestParams"
  by (auto simp: validateRequestPayload_def split: if_splits)

lemma truthy_defined: "truthy v \<Longrightarrow> v \<noteq> JUndefined \<and> v \<noteq> JNull"
  by (cases v) auto

lemma document_message_differs: "document_message \<noteq> strings_message"
  by (simp add: document_message_def strings_message_def)

section \<open>The pipeline\<close>

text \<open>
  C3. The specification lets a request on the configured path whose payload has no
  \<^verbatim>\<open>id\<close> skip caching entirely: no cache lookup, the request handed on unmodified, no
  population afterwards. The pipeline guards only the population. An ordinary request with
  query text and no \<^verbatim>\<open>id\<close>, on an empty cache, is fingerprinted as the digest of
  \<^verbatim>\<open>"undefined"\<close> and looked up, and its query text is replaced by undefined before the
  next handler sees it; nothing is stored afterwards.
\<close>

theorem request_without_id_is_looked_up_and_rewritten:
  "get_prop (request_body plain_query_request) ''id'' = JUndefined
   \<and> get_prop (request_body plain_query_request) ''query'' = JStr ''{ hello }''
   \<and> persistCache sample_runtime (LRU_package 0) sample_config sample_executor
       plain_query_request (initial_world (LRU_package 0)) =
      (Inr (plain_query_request
              \<lparr>request_body := JObj PlainObject [(''query'', JUndefined)],
               response_body := hello_world, response_type := ''application/json''\<rparr>),
       \<lparr> cache = getCache (LRU_package 0) None,
         trace =
           [CacheGet undefined_key,
            NextCalled (plain_query_request
                          \<lparr>request_body := JObj PlainObject [(''query'', JUndefined)]\<rparr>)] \<rparr>)"
  by (simp add: model_defs sample_defs plain_query_request_def undefined_key_def)

text \<open>
  C4. For a request on the configured path whose fingerprint hits the cache, the pipeline
  sets the response body to the cached value, does not call the next handler and writes
  nothing to the cache: the result does not depend on the handler, and the only event is
  the lookup. A hit is a lookup that returns a truthy value, which is what the code tests.
\<close>

theorem cache_hit_short_circuits:
  assumes path: "ctx_path ctx = (case cfg_path config of None \<Rightarrow> ''/graphql'' | Some p \<Rightarrow> p)"
    and parse: "parseGraphQLRequest rt ctx = Inr request"
    and hash: "generateRequestHash rt (persistHash request) (variables request) = Inr key"
    and get: "LRUCache_get lib (cache w) key = (cached, c')"
    and hit: "truthy cached"
  shows "persistCache rt lib config next_handler ctx w =
           (Inr (ctx\<lparr>response_body := cached\<rparr>),
            w\<lparr>cache := c', trace := trace w @ [CacheGet key]\<rparr>)"
  using assms
  by (simp add: persistCache_def conditionDo_def shouldHandleByPath_def
        getQueryFromHash_def getResponseFromCache_def)

theorem cache_hit_short_circuits_witness:
  "ctx_path abc123_request = (case cfg_path sample_config of None \<Rightarrow> ''/graphql'' | Some p \<Rightarrow> p)
   \<and> parseGraphQLRequest sample_runtime abc123_request =
       Inr \<lparr> query = JUndefined, operationName = JUndefined, variables = JUndefined,
             extensions = JUndefined, persistHash = JStr ''abc123'' \<rparr>
   \<and> generateRequestHash sample_runtime (JStr ''abc123'') JUndefined = Inr abc123_key
   \<and> LRUCache_get (LRU_package 5) (cache (world_holding abc123_key hello_world)) abc123_key =
       (hello_world, cache (world_holding abc123_key hello_world))
   \<and> truthy hello_world
   \<and> persistCache sample_runtime (LRU_package 5) sample_config sample_executor abc123_request
       (world_holding abc123_key hello_world) =
       (Inr (abc123_request\<lparr>response_body := hello_world\<rparr>),
        \<lparr> cache = cache (world_holding abc123_key hello_world),
          trace = [CacheGet abc123_key] \<rparr>)"
proof -
  have path: "ctx_path abc123_request =
                (case cfg_path sample_config of None \<Rightarrow> ''/graphql'' | Some p \<Rightarrow> p)"
    by (simp add: abc123_request_def sample_defs)
  have hash: "generateRequestHash sample_runtime
                (persistHash \<lparr> query = JUndefined, operationName = JUndefined,
                               variables = JUndefined, extensions = JUndefined,
                               persistHash = JStr ''abc123'' \<rparr>)
                (variables \<lparr> query = JUndefined, operationName = JUndefined,
                              variables = JUndefined, extensions = JUndefined,
                              persistHash = JStr ''abc123'' \<rparr>) = Inr abc123_key"
    using abc123_hash by simp
  have get: "LRUCache_get (LRU_package 5) (cache (world_holding abc123_key hello_world))
               abc123_key = (hello_world, cache (world_holding abc123_key hello_world))"
    by (simp add: model_defs world_holding_def)
  have hit: "truthy hello_world"
    by (simp add: hello_world_def)
  show ?thesis
    using cache_hit_short_circuits
            [OF path abc123_parse hash get hit, where next_handler = sample_executor]
      path abc123_parse abc123_hash get hit
    by (simp add: world_holding_def)
qed

text \<open>
  C5, as stated: after execution the pipeline writes the fingerprint and the outbound body
  into the cache if and only if persistHash was present and the response is JSON. The
  code tests persistHash for truthiness, not for presence: a request whose \<^verbatim>\<open>id\<close> is the
  empty string has a persistHash, is executed, gets a JSON response, and nothing is written.
\<close>

theorem present_but_empty_id_is_not_cached:
  "get_prop (request_body empty_id_request) ''id'' = JStr ''''
   \<and> persistCache sample_runtime (LRU_package 0) sample_config sample_executor
       empty_id_request (initial_world (LRU_package 0)) =
      (Inr (empty_id_request
              \<lparr>request_body := JObj PlainObject [(''id'', JStr ''''), (''query'', JUndefined)],
               response_body := hello_world, response_type := ''application/json''\<rparr>),
       \<lparr> cache = getCache (LRU_package 0) None,
         trace =
           [CacheGet empty_key,
            NextCalled (empty_id_request
                          \<lparr>request_body :=
                             JObj PlainObject [(''id'', JStr ''''), (''query'', JUndefined)]\<rparr>)] \<rparr>)"
  by (simp add: model_defs sample_defs empty_id_request_def empty_key_def)

text \<open>
  C5, amended. After the next handler has completed on a cache miss, the pipeline writes
  the fingerprint and the outbound body into the cache if and only if persistHash is
  truthy (present and not an empty string, 0, false or null) and the content type of the
  outbound response is exactly \<^verbatim>\<open>application/json\<close>; otherwise the cache is not written.
\<close>

theorem cache_written_iff_truthy_hash_and_json:
  assumes path: "ctx_path ctx = (case cfg_path config of None \<Rightarrow> ''/graphql'' | Some p \<Rightarrow> p)"
    and parse: "parseGraphQLRequest rt ctx = Inr request"
    and hash: "generateRequestHash rt (persistHash request) (variables request) = Inr key"
    and get: "LRUCache_get lib (cache w) key = (found, c')"
    and miss: "\<not> truthy found"
    and body: "set_prop (request_body ctx) ''query''
                 (persistMap_lookup rt (cfg_map config) (persistHash request)) = Some body'"
    and executed: "next_handler (ctx\<lparr>request_body := body'\<rparr>) = Inr ctx'"
  shows "persistCache rt lib config next_handler ctx w =
           (Inr ctx',
            if truthy (persistHash request) \<and> response_type ctx' = ''application/json''
            then w\<lparr>cache := LRUCache_set lib c' key (response_body ctx'),
                   trace := trace w @ [CacheGet key, NextCalled (ctx\<lparr>request_body := body'\<rparr>),
                                       CacheSet key (response_body ctx')]\<rparr>
            else w\<lparr>cache := c',
                   trace := trace w @ [CacheGet key, NextCalled (ctx\<lparr>request_body := body'\<rparr>)]\<rparr>)"
  using assms
  by (simp add: persistCache_def conditionDo_def shouldHandleByPath_def
        getQueryFromHash_def getResponseFromCache_def call_next_def
        cacheAfterExecutionGraphQL_def)

theorem cache_written_iff_truthy_hash_and_json_witness:
  "ctx_path abc123_request = (case cfg_path sample_config of None \<Rightarrow> ''/graphql'' | Some p \<Rightarrow> p)
   \<and> parseGraphQLRequest sample_runtime abc123_request =
       Inr \<lparr> query = JUndefined, operationName = JUndefined, variables = JUndefined,
             extensions = JUndefined, persistHash = JStr ''abc123'' \<rparr>
   \<and> generateRequestHash sample_runtime (JStr ''abc123'') JUndefined = Inr abc123_key
   \<and> LRUCache_get (LRU_package 0) (cache (initial_world (LRU_package 0))) abc123_key =
       (JUndefined, getCache (LRU_package 0) None)
   \<and> \<not> truthy JUndefined
   \<and> set_prop (request_body abc123_request) ''query''
        (persistMap_lookup sample_runtime (cfg_map sample_config) (JStr ''abc123'')) =
       Some (JObj PlainObject [(''id'', JStr ''abc123''), (''query'', JStr ''{ hello }'')])
   \<and> sample_executor
        (abc123_request\<lparr>request_body :=
           JObj PlainObject [(''id'', JStr ''abc123''), (''query'', JStr ''{ hello }'')]\<rparr>) =
       Inr (abc123_request
              \<lparr>request_body :=
                 JObj PlainObject [(''id'', JStr ''abc123''), (''query'', JStr ''{ hello }'')],
               response_body := hello_world, response_type := ''application/json''\<rparr>)
   \<and> persistCache sample_runtime (LRU_package 0) sample_config sample_executor abc123_request
        (initial_world (LRU_package 0)) =
       (Inr (abc123_request
               \<lparr>request_body :=
                  JObj PlainObject [(''id'', JStr ''abc123''), (''query'', JStr ''{ hello }'')],
                response_body := hello_world, response_type := ''application/json''\<rparr>),
        \<lparr> cache = LRUCache_set (LRU_package 0) (getCache (LRU_package 0) None) abc123_key
                    hello_world,
          trace =
            [CacheGet abc123_key,
             NextCalled (abc123_request
                           \<lparr>request_body :=
                              JObj PlainObject
                                [(''id'', JStr ''abc123''), (''query'', JStr ''{ hello }'')]\<rparr>),
             CacheSet abc123_key hello_world] \<rparr>)"
proof -
  let ?request = "\<lparr> query = JUndefined, operationName = JUndefined, variables = JUndefined,
                     extensions = JUndefined, persistHash = JStr ''abc123'' \<rparr>"
  let ?body = "JObj PlainObject [(''id'', JStr ''abc123''), (''query'', JStr ''{ hello }'')]"
  let ?answered = "abc123_request
                     \<lparr>request_body := ?body, response_body := hello_world,
                      response_type := ''application/json''\<rparr>"
  have path: "ctx_path abc123_request =
                (case cfg_path sample_config of None \<Rightarrow> ''/graphql'' | Some p \<Rightarrow> p)"
    by (simp add: abc123_request_def sample_defs)
  have hash: "generateRequestHash sample_runtime (persistHash ?request) (variables ?request) =
                Inr abc123_key"
    using abc123_hash by simp
  have get: "LRUCache_get (LRU_package 0) (cache (initial_world (LRU_package 0))) abc123_key =
               (JUndefined, getCache (LRU_package 0) None)"
    by (simp add: model_defs)
  have miss: "\<not> truthy JUndefined"
    by simp
  have body: "set_prop (request_body abc123_request) ''query''
                (persistMap_lookup sample_runtime (cfg_map sample_config) (persistHash ?request)) =
              Some ?body"
    by (simp add: model_defs sample_defs abc123_request_def)
  have executed: "sample_executor (abc123_request\<lparr>request_body := ?body\<rparr>) = Inr ?answered"
    by (simp add: sample_executor_def)
  show ?thesis
    using cache_written_iff_truthy_hash_and_json
            [where next_handler = sample_executor,
             OF path abc123_parse hash get miss body executed]
      path abc123_parse abc123_hash get miss body executed
    by (simp add: initial_world_def)
qed

text \<open>
  C9. When the value cached under a fingerprint is falsy (an empty string, null, 0 or
  false), the lookup treats the key as absent although the cache holds it:
  \<^verbatim>\<open>getResponseFromCache\<close> returns undefined. The pipeline then takes the miss path: given
  the request body that the body parser left, which the assignment needs, the next handler
  is called, and the entry is written again when persistHash is truthy and the response is
  JSON.
\<close>

theorem falsy_cached_value_is_a_miss:
  assumes get: "LRUCache_get lib (cache w) key = (found, c')"
    and falsy: "\<not> truthy found"
  shows "getResponseFromCache lib key w =
           (JUndefined, w\<lparr>cache := c', trace := trace w @ [CacheGet key]\<rparr>)
         \<and> (\<forall>request body'.
               parseGraphQLRequest rt ctx = Inr request
               \<and> generateRequestHash rt (persistHash request) (variables request) = Inr key
               \<and> set_prop (request_body ctx) ''query''
                    (persistMap_lookup rt persistMap (persistHash request)) = Some body'
             \<longrightarrow> (\<exists>rest. trace (snd (getQueryFromHash rt lib next_handler persistMap ctx w)) =
                           trace w @ CacheGet key # NextCalled (ctx\<lparr>request_body := body'\<rparr>) # rest)
                 \<and> (\<forall>ctx'. next_handler (ctx\<lparr>request_body := body'\<rparr>) = Inr ctx'
                            \<and> truthy (persistHash request)
                            \<and> response_type ctx' = ''application/json''
                      \<longrightarrow> getQueryFromHash rt lib next_handler persistMap ctx w =
                            (Inr ctx',
                             w\<lparr>cache := LRUCache_set lib c' key (response_body ctx'),
                               trace := trace w @
                                 [CacheGet key, NextCalled (ctx\<lparr>request_body := body'\<rparr>),
                                  CacheSet key (response_body ctx')]\<rparr>)))"
  using assms
  by (auto simp: getQueryFromHash_def getResponseFromCache_def call_next_def
        cacheAfterExecutionGraphQL_def split: sum.splits)

theorem falsy_cached_value_is_a_miss_witness:
  "LRUCache_get (LRU_package 5) (cache (world_holding abc123_key (JStr ''''))) abc123_key =
     (JStr '''', cache (world_holding abc123_key (JStr '''')))
   \<and> \<not> truthy (JStr '''')
   \<and> LRUCache_has (LRU_package 5) (cache (world_holding abc123_key (JStr ''''))) abc123_key
   \<and> getResponseFromCache (LRU_package 5) abc123_key (world_holding abc123_key (JStr '''')) =
       (JUndefined,
        \<lparr> cache = cache (world_holding abc123_key (JStr '''')), trace = [CacheGet abc123_key] \<rparr>)
   \<and> getQueryFromHash sample_runtime (LRU_package 5) sample_executor (cfg_map sample_config)
        abc123_request (world_holding abc123_key (JStr '''')) =
       (Inr (abc123_request
               \<lparr>request_body :=
                  JObj PlainObject [(''id'', JStr ''abc123''), (''query'', JStr ''{ hello }'')],
                response_body := hello_world, response_type := ''application/json''\<rparr>),
        \<lparr> cache = LRU_set 5 (cache (world_holding abc123_key (JStr ''''))) abc123_key hello_world,
          trace =
            [CacheGet abc123_key,
             NextCalled (abc123_request
                           \<lparr>request_body :=
                              JObj PlainObject
                                [(''id'', JStr ''abc123''), (''query'', JStr ''{ hello }'')]\<rparr>),
             CacheSet abc123_key hello_world] \<rparr>)"
proof -
  let ?w = "world_holding abc123_key (JStr '''')"
  let ?request = "\<lparr> query = JUndefined, operationName = JUndefined, variables = JUndefined,
                     extensions = JUndefined, persistHash = JStr ''abc123'' \<rparr>"
  let ?body = "JObj PlainObject [(''id'', JStr ''abc123''), (''query'', JStr ''{ hello }'')]"
  let ?answered = "abc123_request
                     \<lparr>request_body := ?body, response_body := hello_world,
                      response_type := ''application/json''\<rparr>"
  have get: "LRUCache_get (LRU_package 5) (cache ?w) abc123_key = (JStr '''', cache ?w)"
    by (simp add: model_defs world_holding_def)
  have falsy: "\<not> truthy (JStr '''')"
    by simp
  have held: "LRUCache_has (LRU_package 5) (cache ?w) abc123_key"
    by (simp add: model_defs world_holding_def)
  have hash: "generateRequestHash sample_runtime (persistHash ?request) (variables ?request) =
                Inr abc123_key"
    using abc123_hash by simp
  have body: "set_prop (request_body abc123_request) ''query''
                (persistMap_lookup sample_runtime (cfg_map sample_config) (persistHash ?request)) =
              Some ?body"
    by (simp add: model_defs sample_defs abc123_request_def)
  have executed: "sample_executor (abc123_request\<lparr>request_body := ?body\<rparr>) = Inr ?answered"
    by (simp add: sample_executor_def)
  have json: "truthy (persistHash ?request) \<and> response_type ?answered = ''application/json''"
    by simp
  from falsy_cached_value_is_a_miss
         [OF get falsy, where rt = sample_runtime and ctx = abc123_request
            and persistMap = "cfg_map sample_config" and next_handler = sample_executor]
  have lookup: "getResponseFromCache (LRU_package 5) abc123_key ?w =
                  (JUndefined, ?w\<lparr>cache := cache ?w, trace := trace ?w @ [CacheGet abc123_key]\<rparr>)"
    and run: "getQueryFromHash sample_runtime (LRU_package 5) sample_executor
                (cfg_map sample_config) abc123_request ?w =
              (Inr ?answered,
               ?w\<lparr>cache := LRUCache_set (LRU_package 5) (cache ?w) abc123_key
                              (response_body ?answered),
                  trace := trace ?w @
                    [CacheGet abc123_key, NextCalled (abc123_request\<lparr>request_body := ?body\<rparr>),
                     CacheSet abc123_key (response_body ?answered)]\<rparr>)"
    using abc123_parse hash body executed json by blast+
  show ?thesis
    using get falsy held lookup run
    by (simp add: world_holding_def LRUCache_set_def LRU_package_def)
qed

text \<open>
  C10, as stated: on every cache miss the pipeline overwrites the \<^verbatim>\<open>query\<close> field of the
  request body with \<^verbatim>\<open>persistMap[persistHash]\<close> before calling the next handler, and when
  persistHash is absent or is not a key of the map the client's query text is replaced by
  undefined. The map is a plain object, so the lookup also finds what the object inherits:
  the id \<^verbatim>\<open>constructor\<close> is no key of the configured map, and the query text is replaced by
  the inherited function, not by undefined. The handler is called with it, and the response
  is cached.
\<close>

theorem inherited_member_replaces_query:
  "cfg_map sample_config ''constructor'' = None
   \<and> JObj (BuiltinObject ''constructor'') [] \<noteq> JUndefined
   \<and> persistCache sample_runtime (LRU_package 0) sample_config sample_executor
       constructor_request (initial_world (LRU_package 0)) =
      (Inr (constructor_request
              \<lparr>request_body :=
                 JObj PlainObject
                   [(''id'', JStr ''constructor''),
                    (''query'', JObj (BuiltinObject ''constructor'') [])],
               response_body := hello_world, response_type := ''application/json''\<rparr>),
       \<lparr> cache = LRU_set 0 (getCache (LRU_package 0) None) constructor_key hello_world,
         trace =
           [CacheGet constructor_key,
            NextCalled (constructor_request
                          \<lparr>request_body :=
                             JObj PlainObject
                               [(''id'', JStr ''constructor''),
                                (''query'', JObj (BuiltinObject ''constructor'') [])]\<rparr>),
            CacheSet constructor_key hello_world] \<rparr>)"
  by (simp add: model_defs sample_defs constructor_request_def constructor_key_def)

text \<open>
  C10, amended. On a cache miss for a request on the configured path, the pipeline
  overwrites the \<^verbatim>\<open>query\<close> field of the request body with \<^verbatim>\<open>persistMap[persistHash]\<close> before
  it calls the next handler, with no test of persistHash or of the map: the handler receives
  the context with the field overwritten. The field becomes the registered text when the
  key is registered, and undefined, whatever query text the client sent, when the key is
  neither registered nor the name of a member inherited from \<^verbatim>\<open>Object.prototype\<close>; an
  absent persistHash is looked up under the key \<^verbatim>\<open>"undefined"\<close>. The model also says what
  the field becomes under an inherited name: the inherited member. The request body is the
  object that the body parser left, as the middleware requires of its host.
\<close>

theorem cache_miss_overwrites_query:
  assumes path: "ctx_path ctx = (case cfg_path config of None \<Rightarrow> ''/graphql'' | Some p \<Rightarrow> p)"
    and parse: "parseGraphQLRequest rt ctx = Inr request"
    and hash: "generateRequestHash rt (persistHash request) (variables request) = Inr key"
    and get: "LRUCache_get lib (cache w) key = (found, c')"
    and miss: "\<not> truthy found"
    and body: "request_body ctx = JObj kind props"
  shows "\<exists>forwarded injected rest.
           trace (snd (persistCache rt lib config next_handler ctx w)) =
             trace w @ CacheGet key # NextCalled forwarded # rest
         \<and> forwarded = ctx\<lparr>request_body := JObj kind (AList.update ''query'' injected props)\<rparr>
         \<and> get_prop (request_body forwarded) ''query'' = injected
         \<and> (\<forall>text. cfg_map config (ToString rt (persistHash request)) = Some text
               \<longrightarrow> injected = JStr text)
         \<and> (cfg_map config (ToString rt (persistHash request)) = None
              \<and> Object_prototype (ToString rt (persistHash request)) = None
               \<longrightarrow> injected = JUndefined)
         \<and> (\<forall>inherited. cfg_map config (ToString rt (persistHash request)) = None
                \<and> Object_prototype (ToString rt (persistHash request)) = Some inherited
               \<longrightarrow> injected = inherited)
         \<and> (persistHash request = JUndefined \<and> cfg_map config ''undefined'' = None
               \<longrightarrow> injected = JUndefined)"
proof -
  let ?injected = "persistMap_lookup rt (cfg_map config) (persistHash request)"
  let ?forwarded = "ctx\<lparr>request_body := JObj kind (AList.update ''query'' ?injected props)\<rparr>"
  have run: "\<exists>rest. trace (snd (persistCache rt lib config next_handler ctx w)) =
               trace w @ CacheGet key # NextCalled ?forwarded # rest"
    using assms
    by (auto simp: persistCache_def conditionDo_def shouldHandleByPath_def
          getQueryFromHash_def getResponseFromCache_def call_next_def
          cacheAfterExecutionGraphQL_def
        split: sum.splits)
  have read: "get_prop (request_body ?forwarded) ''query'' = ?injected"
    by (simp add: update_conv')
  have registered: "\<forall>text. cfg_map config (ToString rt (persistHash request)) = Some text
                      \<longrightarrow> ?injected = JStr text"
    by (simp add: persistMap_lookup_def)
  have neither: "cfg_map config (ToString rt (persistHash request)) = None
                   \<and> Object_prototype (ToString rt (persistHash request)) = None
                 \<longrightarrow> ?injected = JUndefined"
    by (simp add: persistMap_lookup_def)
  have inherited: "\<forall>inherited. cfg_map config (ToString rt (persistHash request)) = None
                      \<and> Object_prototype (ToString rt (persistHash request)) = Some inherited
                    \<longrightarrow> ?injected = inherited"
    by (simp add: persistMap_lookup_def)
  have no_member: "Object_prototype ''undefined'' = None"
    by (simp add: Object_prototype_def)
  have absent: "persistHash request = JUndefined \<and> cfg_map config ''undefined'' = None
                  \<longrightarrow> ?injected = JUndefined"
    by (simp add: persistMap_lookup_def no_member)
  from run obtain rest where
    "trace (snd (persistCache rt lib config next_handler ctx w)) =
       trace w @ CacheGet key # NextCalled ?forwarded # rest"
    by blast
  with read registered neither inherited absent show ?thesis
    by blast
qed

theorem cache_miss_overwrites_query_witness:
  "ctx_path plain_query_request =
     (case cfg_path sample_config of None \<Rightarrow> ''/graphql'' | Some p \<Rightarrow> p)
   \<and> parseGraphQLRequest sample_runtime plain_query_request =
       Inr \<lparr> query = JStr ''{ hello }'', operationName = JUndefined, variables = JUndefined,
             extensions = JUndefined, persistHash = JUndefined \<rparr>
   \<and> generateRequestHash sample_runtime JUndefined JUndefined = Inr undefined_key
   \<and> LRUCache_get (LRU_package 0) (cache (initial_world (LRU_package 0))) undefined_key =
       (JUndefined, getCache (LRU_package 0) None)
   \<and> \<not> truthy JUndefined
   \<and> request_body plain_query_request = JObj PlainObject [(''query'', JStr ''{ hello }'')]
   \<and> cfg_map sample_config ''undefined'' = None
   \<and> (\<exists>rest.
         trace (snd (persistCache sample_runtime (LRU_package 0) sample_config sample_executor
                       plain_query_request (initial_world (LRU_package 0)))) =
           CacheGet undefined_key
           # NextCalled (plain_query_request
                           \<lparr>request_body := JObj PlainObject [(''query'', JUndefined)]\<rparr>)
           # rest)"
proof -
  let ?request = "\<lparr> query = JStr ''{ hello }'', operationName = JUndefined,
                     variables = JUndefined, extensions = JUndefined,
                     persistHash = JUndefined \<rparr>"
  have path: "ctx_path plain_query_request =
                (case cfg_path sample_config of None \<Rightarrow> ''/graphql'' | Some p \<Rightarrow> p)"
    by (simp add: plain_query_request_def sample_defs)
  have parse: "parseGraphQLRequest sample_runtime plain_query_request = Inr ?request"
    by (simp add: model_defs sample_defs plain_query_request_def)
  have hash: "generateRequestHash sample_runtime (persistHash ?request) (variables ?request) =
                Inr undefined_key"
    by (simp add: model_defs sample_defs undefined_key_def)
  have get: "LRUCache_get (LRU_package 0) (cache (initial_world (LRU_package 0))) undefined_key =
               (JUndefined, getCache (LRU_package 0) None)"
    by (simp add: model_defs)
  have miss: "\<not> truthy JUndefined"
    by simp
  have body: "request_body plain_query_request =
                JObj PlainObject [(''query'', JStr ''{ hello }'')]"
    by (simp add: plain_query_request_def sample_defs)
  have unregistered: "cfg_map sample_config ''undefined'' = None"
    by (simp add: sample_config_def)
  from cache_miss_overwrites_query
         [OF path parse hash get miss body, where next_handler = sample_executor]
  obtain forwarded injected rest where
    run: "trace (snd (persistCache sample_runtime (LRU_package 0) sample_config sample_executor
                        plain_query_request (initial_world (LRU_package 0)))) =
            trace (initial_world (LRU_package 0)) @ CacheGet undefined_key
              # NextCalled forwarded # rest"
    and forwarded: "forwarded =
            plain_query_request
              \<lparr>request_body :=
                 JObj PlainObject (AList.update ''query'' injected [(''query'', JStr ''{ hello }'')])\<rparr>"
    and absent: "persistHash ?request = JUndefined \<and> cfg_map sample_config ''undefined'' = None
                   \<longrightarrow> injected = JUndefined"
    by blast
  from absent unregistered have "injected = JUndefined"
    by simp
  with run forwarded path parse hash get miss body unregistered show ?thesis
    by (auto simp: initial_world_def)
qed

section \<open>Normalisation\<close>

text \<open>
  C6. Normalisation dispatches on the HTTP method. A GET request whose query-string
  mapping is absent or empty fails with HttpQueryError 400; a POST request whose body is
  absent or empty fails with HttpQueryError 500; any other method, PUT for one, fails with
  HttpQueryError 405 carrying the header \<^verbatim>\<open>Allow: GET, POST\<close>. The body of a POST request
  is the one the normaliser reads: \<^verbatim>\<open>ctx.request.body\<close>, or \<^verbatim>\<open>ctx.req.body\<close> when that is
  falsy.
\<close>

theorem method_validation:
  "(request_method ctx = ''GET'' \<and> absent_or_empty (request_query ctx)
      \<longrightarrow> parseGraphQLRequest rt ctx =
            Inl (HttpQueryErr \<lparr> statusCode = 400, message = ''GET query missing.'',
                                isGraphQLError = False, headers = None \<rparr>))
   \<and> (request_method ctx = ''POST'' \<and> absent_or_empty (qm_query (parseQueryAndMethod ctx))
      \<longrightarrow> parseGraphQLRequest rt ctx =
            Inl (HttpQueryErr
                   \<lparr> statusCode = 500,
                     message = ''POST body missing. Did you forget use body-parser middleware?'',
                     isGraphQLError = False, headers = None \<rparr>))
   \<and> (request_method ctx \<noteq> ''GET'' \<and> request_method ctx \<noteq> ''POST''
      \<longrightarrow> parseGraphQLRequest rt ctx =
            Inl (HttpQueryErr
                   \<lparr> statusCode = 405,
                     message = ''Apollo Server supports only GET/POST requests.'',
                     isGraphQLError = False,
                     headers = Some [(''Allow'', ''GET, POST'')] \<rparr>))"
  by (simp add: parseGraphQLRequest_def validateRequestPayload_def parseQueryAndMethod_def
        new_HttpQueryError_def absent_or_empty_iff)

theorem method_validation_witness:
  "absent_or_empty (request_query
     (sample_request ''GET'' (JObj PlainObject []) (JObj PlainObject [])))
   \<and> parseGraphQLRequest sample_runtime
       (sample_request ''GET'' (JObj PlainObject []) (JObj PlainObject [])) =
     Inl (HttpQueryErr \<lparr> statusCode = 400, message = ''GET query missing.'',
                         isGraphQLError = False, headers = None \<rparr>)
   \<and> absent_or_empty (qm_query (parseQueryAndMethod
       (sample_request ''POST'' (JObj PlainObject []) (JObj PlainObject []))))
   \<and> parseGraphQLRequest sample_runtime
       (sample_request ''POST'' (JObj PlainObject []) (JObj PlainObject [])) =
     Inl (HttpQueryErr
            \<lparr> statusCode = 500,
              message = ''POST body missing. Did you forget use body-parser middleware?'',
              isGraphQLError = False, headers = None \<rparr>)
   \<and> parseGraphQLRequest sample_runtime
       (sample_request ''PUT'' (JObj PlainObject [(''id'', JStr ''abc123'')]) (JObj PlainObject [])) =
     Inl (HttpQueryErr
            \<lparr> statusCode = 405,
              message = ''Apollo Server supports only GET/POST requests.'',
              isGraphQLError = False,
              headers = Some [(''Allow'', ''GET, POST'')] \<rparr>)"
  using method_validation
          [of "sample_request ''GET'' (JObj PlainObject []) (JObj PlainObject [])" sample_runtime]
        method_validation
          [of "sample_request ''POST'' (JObj PlainObject []) (JObj PlainObject [])" sample_runtime]
        method_validation
          [of "sample_request ''PUT'' (JObj PlainObject [(''id'', JStr ''abc123'')])
                 (JObj PlainObject [])" sample_runtime]
  by (simp add: sample_request_def absent_or_empty_def parseQueryAndMethod_def)

text \<open>
  C8, as stated: a payload whose \<^verbatim>\<open>query\<close> field is present but not a string fails with
  HttpQueryError 400, and with the more specific message when the value has a \<^verbatim>\<open>kind\<close>
  field equal to \<^verbatim>\<open>"Document"\<close>. The code rejects a query only when it is truthy: the
  number 0 is present and is not a string, and normalisation succeeds with it. And the
  extensions are parsed first: a document sent along with extensions that are not JSON is
  rejected with the message about the extensions.
\<close>

theorem non_string_query_counterexample:
  "get_prop (JObj PlainObject [(''id'', JStr ''abc123''), (''query'', JNum 0)]) ''query'' = JNum 0
   \<and> \<not> isString (JNum 0)
   \<and> parseGraphQLRequest sample_runtime
       (sample_request ''POST''
          (JObj PlainObject [(''id'', JStr ''abc123''), (''query'', JNum 0)]) JUndefined) =
     Inr \<lparr> query = JNum 0, operationName = JUndefined, variables = JUndefined,
           extensions = JUndefined, persistHash = JStr ''abc123'' \<rparr>
   \<and> parseGraphQLRequest sample_runtime
       (sample_request ''POST''
          (JObj PlainObject
             [(''query'', JObj PlainObject [(''kind'', JStr ''Document'')]),
              (''extensions'', JStr ''{not json'')]) JUndefined) =
     Inl (HttpQueryErr \<lparr> statusCode = 400, message = ''Extensions are invalid JSON.'',
                         isGraphQLError = False, headers = None \<rparr>)"
  by (simp add: model_defs sample_defs)

text \<open>
  C8, amended. For every validated payload whose \<^verbatim>\<open>query\<close> field is truthy (not
  undefined, null, false, 0 or the empty string) and not a string, normalisation fails with
  HttpQueryError 400. Unless the extensions are a string that is not JSON, which is
  reported first, the message is the generic one, or, when the value has a \<^verbatim>\<open>kind\<close> field
  equal to \<^verbatim>\<open>"Document"\<close>, the longer one that tells the client to send the query as a
  string.
\<close>

theorem truthy_non_string_query_rejected:
  assumes validated: "validateRequestPayload (parseQueryAndMethod ctx) = Inr requestParams"
    and present: "truthy (get_prop requestParams ''query'')"
    and not_string: "\<not> isString (get_prop requestParams ''query'')"
  shows "\<exists>e. parseGraphQLRequest rt ctx = Inl (HttpQueryErr e)
             \<and> statusCode e = 400
             \<and> ((\<forall>s. get_prop requestParams ''extensions'' = JStr s \<longrightarrow> JSON_parse rt s \<noteq> None)
                  \<longrightarrow> message e =
                        (if get_prop (get_prop requestParams ''query'') ''kind'' = JStr ''Document''
                         then document_message else strings_message))
             \<and> document_message \<noteq> strings_message"
proof -
  have defined: "requestParams \<noteq> JUndefined \<and> requestParams \<noteq> JNull"
    using validated validated_payload_truthy truthy_defined by blast
  show ?thesis
    using assms defined document_message_differs
    by (auto simp: parseGraphQLRequest_def parseGraphQLRequestFromPayload_def
          parse_if_string_def new_HttpQueryError_def
        split: jsval.splits option.splits)
qed

theorem truthy_non_string_query_rejected_witness:
  "validateRequestPayload (parseQueryAndMethod document_request) =
     Inr (JObj PlainObject [(''query'', JObj PlainObject [(''kind'', JStr ''Document'')])])
   \<and> truthy (JObj PlainObject [(''kind'', JStr ''Document'')])
   \<and> \<not> isString (JObj PlainObject [(''kind'', JStr ''Document'')])
   \<and> parseGraphQLRequest sample_runtime document_request =
       Inl (HttpQueryErr \<lparr> statusCode = 400, message = document_message,
                           isGraphQLError = False, headers = None \<rparr>)"
proof -
  let ?payload = "JObj PlainObject [(''query'', JObj PlainObject [(''kind'', JStr ''Document'')])]"
  have validated: "validateRequestPayload (parseQueryAndMethod document_request) = Inr ?payload"
    by (simp add: model_defs sample_defs document_request_def)
  have present: "truthy (get_prop ?payload ''query'')"
    by simp
  have not_string: "\<not> isString (get_prop ?payload ''query'')"
    by simp
  show ?thesis
    using truthy_non_string_query_rejected [OF validated present not_string, of sample_runtime]
      validated
    by (auto simp: model_defs)
qed

section \<open>The bounded store\<close>

lemma LRU_set_max [simp]: "lru_max (LRU_set now c key val) = lru_max c"
  by (simp add: LRU_set_def)

lemma LRU_set_all_max [simp]: "lru_max (LRU_set_all c inserts) = lru_max c"
  by (induction c inserts rule: LRU_set_all.induct) simp_all

lemma LRU_set_all_append:
  "LRU_set_all c (xs @ ys) = LRU_set_all (LRU_set_all c xs) ys"
  by (induction c xs rule: LRU_set_all.induct) simp_all

lemma LRU_set_keys:
  "map fst (lru_entries (LRU_set now c key val)) =
     take (lru_max c) (key # filter (\<lambda>k. k \<noteq> key) (map fst (lru_entries c)))"
  by (simp add: LRU_set_def filter_map comp_def flip: take_map)

lemma take_Cons_take: "take m (k # take m xs @ ys) = take m (k # xs @ take (m - length xs) ys)"
  by (cases m) (simp_all add: min_def)

text \<open>
  After distinct keys have been inserted, the store holds them from the last inserted
  back, as far as the capacity goes, whatever it held before.
\<close>

lemma LRU_set_all_keys:
  assumes "inserts \<noteq> []" and "distinct (map fst inserts)"
  shows "\<exists>rest. map fst (lru_entries (LRU_set_all c inserts)) =
           take (lru_max c) (rev (map fst inserts) @ rest)"
  using assms
proof (induction inserts rule: rev_nonempty_induct)
  case (single e)
  obtain key val now where e: "e = (key, val, now)"
    by (cases e)
  show ?case
    by (rule exI [of _ "filter (\<lambda>k. k \<noteq> key) (map fst (lru_entries c))"])
       (simp add: e LRU_set_keys)
next
  case (snoc e inserts)
  obtain key val now where e: "e = (key, val, now)"
    by (cases e)
  from snoc.prems have fresh: "key \<notin> set (map fst inserts)" and "distinct (map fst inserts)"
    by (simp_all add: e)
  then obtain rest where IH:
    "map fst (lru_entries (LRU_set_all c inserts)) =
       take (lru_max c) (rev (map fst inserts) @ rest)"
    using snoc.IH by blast
  let ?m = "lru_max c" and ?ks = "rev (map fst inserts)"
  have unchanged: "filter (\<lambda>k. k \<noteq> key) (take ?m ?ks) = take ?m ?ks"
    using fresh by (auto simp: filter_id_conv dest: in_set_takeD)
  have "map fst (lru_entries (LRU_set_all c (inserts @ [e]))) =
          take ?m (key # filter (\<lambda>k. k \<noteq> key) (take ?m (?ks @ rest)))"
    by (simp add: LRU_set_all_append e LRU_set_keys IH)
  also have "\<dots> = take ?m (key # take ?m ?ks @
                       filter (\<lambda>k. k \<noteq> key) (take (?m - length ?ks) rest))"
    by (simp add: unchanged)
  also have "\<dots> = take ?m (key # ?ks @
                       take (?m - length ?ks)
                         (filter (\<lambda>k. k \<noteq> key) (take (?m - length ?ks) rest)))"
    by (rule take_Cons_take)
  finally show ?case
    by (intro exI [of _ "take (?m - length ?ks)
                           (filter (\<lambda>k. k \<noteq> key) (take (?m - length ?ks) rest))"])
       (simp add: e)
qed

text \<open>Inserting a new key into a full store drops the entry at the end of the order.\<close>

lemma LRU_set_evicts_last:
  assumes full: "length (lru_entries c) = lru_max c"
    and positive: "0 < lru_max c"
    and fresh: "key \<notin> fst ` set (lru_entries c)"
  shows "lru_entries (LRU_set now c key val) = (key, val, now) # butlast (lru_entries c)"
proof -
  have "filter (\<lambda>e. fst e \<noteq> key) (lru_entries c) = lru_entries c"
    using fresh by (auto simp: filter_id_conv)
  moreover obtain n where "lru_max c = Suc n"
    using positive by (cases "lru_max c") auto
  ultimately show ?thesis
    using full by (simp add: LRU_set_def butlast_conv_take)
qed

text \<open>
  C7. The response cache holds at most its capacity, 100 by default: inserting capacity + 1
  distinct keys, into a store in any state, leaves exactly capacity entries, the last
  inserted first, and the entry evicted is the least recently used one, the first of the
  keys inserted. In general an insertion of a new key into a full store evicts the entry
  at the end of the recency order. The default capacity is the one \<^verbatim>\<open>getCache\<close> passes to
  the package.
\<close>

theorem cache_bound_and_LRU_eviction:
  assumes different: "distinct (map fst inserts)"
    and count: "length inserts = lru_max c + 1"
  shows "length (lru_entries (LRU_set_all c inserts)) = lru_max c
         \<and> map fst (lru_entries (LRU_set_all c inserts)) = rev (map fst (tl inserts))
         \<and> fst (hd inserts) \<notin> fst ` set (lru_entries (LRU_set_all c inserts))
         \<and> (\<forall>c0 key val now.
               length (lru_entries c0) = lru_max c0 \<and> 0 < lru_max c0
               \<and> key \<notin> fst ` set (lru_entries c0)
             \<longrightarrow> lru_entries (LRU_set now c0 key val) =
                   (key, val, now) # butlast (lru_entries c0))
         \<and> lru_max (getCache (LRU_package clock) None) = 100"
proof -
  obtain first others where inserts: "inserts = first # others"
    using count by (cases inserts) auto
  have "inserts \<noteq> []"
    by (simp add: inserts)
  then obtain rest where "map fst (lru_entries (LRU_set_all c inserts)) =
                            take (lru_max c) (rev (map fst inserts) @ rest)"
    using LRU_set_all_keys different by blast
  then have keys: "map fst (lru_entries (LRU_set_all c inserts)) = rev (map fst (tl inserts))"
    using count by (simp add: inserts)
  have size: "length (lru_entries (LRU_set_all c inserts)) = lru_max c"
    using arg_cong [OF keys, of length] count by (simp add: inserts)
  have evicted: "fst (hd inserts) \<notin> fst ` set (lru_entries (LRU_set_all c inserts))"
    using different arg_cong [OF keys, of set] by (auto simp: inserts)
  have default: "lru_max (getCache (LRU_package clock) None) = 100"
    by (simp add: getCache_def getInstance_def LRUCache_constructor_def LRU_package_def
          LRU_new_def)
  show ?thesis
    using size keys evicted default LRU_set_evicts_last by blast
qed

theorem cache_bound_and_LRU_eviction_witness:
  "distinct (map fst [(''a'', JNum 1, 0::nat), (''b'', JNum 2, 1), (''c'', JNum 3, 2)])
   \<and> length [(''a'', JNum 1, 0::nat), (''b'', JNum 2, 1), (''c'', JNum 3, 2)] =
       lru_max small_cache + 1
   \<and> lru_entries
       (LRU_set_all small_cache [(''a'', JNum 1, 0), (''b'', JNum 2, 1), (''c'', JNum 3, 2)]) =
       [(''c'', JNum 3, 2), (''b'', JNum 2, 1)]
   \<and> length (lru_entries
       (LRU_set_all small_cache [(''a'', JNum 1, 0), (''b'', JNum 2, 1), (''c'', JNum 3, 2)])) = 2"
proof -
  let ?inserts = "[(''a'', JNum 1, 0::nat), (''b'', JNum 2, 1), (''c'', JNum 3, 2)]"
  have different: "distinct (map fst ?inserts)"
    by simp
  have count: "length ?inserts = lru_max small_cache + 1"
    by (simp add: small_cache_def LRU_new_def)
  have run: "lru_entries (LRU_set_all small_cache ?inserts) =
               [(''c'', JNum 3, 2), (''b'', JNum 2, 1)]"
    by (simp add: small_cache_def LRU_new_def LRU_set_def)
  show ?thesis
    using cache_bound_and_LRU_eviction [OF different count] different count run
    by simp
qed


end
